theory Spec2Isabelle
  imports Complex_Main "HOL-Library.Signed_Division" "HOL-Library.Log_Nat"
begin

section \<open>Numeric types of the sources\<close>

text \<open>
  \<^verbatim>\<open>qint64\<close> quantities (frequencies in Hz, seconds, microseconds) are modelled as
  \<^typ>\<open>int\<close>: the handlers below add and subtract frequencies that stay far below
  \<open>2 ^ 63\<close>, and signed overflow has no defined behaviour in C++ anyway. C++ division of
  integers truncates towards zero, which is \<open>sdiv\<close> / \<open>smod\<close>, not \<open>div\<close> / \<open>mod\<close>.

  \<^verbatim>\<open>SUFREQ\<close> is \<^verbatim>\<open>double\<close> and \<^verbatim>\<open>SUFLOAT\<close> is \<^verbatim>\<open>float\<close>. Where the code only stores,
  compares, swaps or clamps such values they are modelled as \<^typ>\<open>real\<close>: a
  \<^verbatim>\<open>double\<close> holds every integer up to \<open>2 ^ 53\<close> exactly, which covers every frequency
  the dialog handles. \<^verbatim>\<open>static_cast<qint64>\<close> of a \<^verbatim>\<open>double\<close> drops the fraction.
\<close>

type_synonym qint64 = int
type_synonym SUFREQ = real
type_synonym SUFLOAT = real

definition to_qint64 :: "real \<Rightarrow> qint64" where
  "to_qint64 x = (if 0 \<le> x then \<lfloor>x\<rfloor> else \<lceil>x\<rceil>)"

subsection \<open>Single precision\<close>

text \<open>
  One expression of the dialog is evaluated in \<^verbatim>\<open>float\<close>: the comparison that selects
  the acquisition mode. A \<^verbatim>\<open>float\<close> has a significand of 24 bits; every conversion and
  every operation returns the exact result rounded to the nearest such number, ties to
  the even significand. \<open>f32\<close> is that rounding, for values in the normal range of the
  format (no overflow, no subnormal numbers): \<open>ilog2 x\<close> is the exponent
  \<open>e\<close> with \<open>2 ^ e \<le> x < 2 ^ (e + 1)\<close>, and the result is a multiple of
  \<open>2 ^ (e - 23)\<close>.
\<close>

definition ilog2 :: "real \<Rightarrow> int" where
  "ilog2 x = (if 1 \<le> x then bitlen \<lfloor>x\<rfloor> - 1 else - bitlen (\<lceil>1 / x\<rceil> - 1))"

definition round_half_even :: "real \<Rightarrow> int" where
  "round_half_even y =
     (let f = \<lfloor>y\<rfloor>; r = y - of_int f
      in if r < 1 / 2 then f
         else if r > 1 / 2 then f + 1
         else if even f then f else f + 1)"

definition pow2 :: "int \<Rightarrow> real" where
  "pow2 e = (if 0 \<le> e then 2 ^ nat e else 1 / 2 ^ nat (- e))"

definition f32 :: "real \<Rightarrow> real" where
  "f32 x =
     (if x = 0 then 0
      else let u = pow2 (ilog2 \<bar>x\<bar> - 23)
           in of_int (round_half_even (x / u)) * u)"


section \<open>PanoramicDialogConfig: the persisted gain map\<close>

text \<open>
  \<^verbatim>\<open>std::map<std::string, SUFLOAT> gains\<close> next to the scalar fields that
  \<^verbatim>\<open>serialize\<close> / \<^verbatim>\<open>deserialize\<close> store and load.
\<close>

record PanoramicDialogConfig =
  cfg_device :: string
  cfg_antenna :: string
  cfg_fullRange :: bool
  cfg_rangeMin :: SUFREQ
  cfg_rangeMax :: SUFREQ
  cfg_panRangeMin :: SUFLOAT
  cfg_panRangeMax :: SUFLOAT
  cfg_lnbFreq :: SUFREQ
  cfg_sampRate :: int
  cfg_strategy :: string
  cfg_partitioning :: string
  cfg_palette :: string
  gains :: "string \<rightharpoonup> SUFLOAT"

definition gainFullName :: "string \<Rightarrow> string \<Rightarrow> string" where
  "gainFullName dev name = ''gain.'' @ dev @ ''.'' @ name"

definition hasGain :: "PanoramicDialogConfig \<Rightarrow> string \<Rightarrow> string \<Rightarrow> bool" where
  "hasGain c dev name = (gains c (gainFullName dev name) \<noteq> None)"

definition getGain :: "PanoramicDialogConfig \<Rightarrow> string \<Rightarrow> string \<Rightarrow> SUFLOAT" where
  "getGain c dev name =
     (case gains c (gainFullName dev name) of
        None \<Rightarrow> 0
      | Some v \<Rightarrow> v)"

definition setGain ::
  "PanoramicDialogConfig \<Rightarrow> string \<Rightarrow> string \<Rightarrow> SUFLOAT \<Rightarrow> PanoramicDialogConfig" where
  "setGain c dev name val = c\<lparr>gains := (gains c)(gainFullName dev name \<mapsto> val)\<rparr>"

definition emptyConfig :: PanoramicDialogConfig where
  "emptyConfig =
     \<lparr>cfg_device = [], cfg_antenna = [], cfg_fullRange = False,
      cfg_rangeMin = 0, cfg_rangeMax = 0, cfg_panRangeMin = 0, cfg_panRangeMax = 0,
      cfg_lnbFreq = 0, cfg_sampRate = 0, cfg_strategy = [], cfg_partitioning = [],
      cfg_palette = [], gains = Map.empty\<rparr>"


section \<open>UIMediator::feedPSD: the message time-to-live filter\<close>

subsection \<open>struct timeval and the BSD timer macros\<close>

text \<open>
  \<^verbatim>\<open>timersub\<close> and \<^verbatim>\<open>timercmp\<close> are the macros of \<^verbatim>\<open><sys/time.h>\<close>:
  \<^verbatim>\<open>timersub\<close> subtracts field by field and borrows one second when the microseconds
  go negative; \<^verbatim>\<open>timercmp(a, b, >)\<close> compares the seconds and, when they are equal, the
  microseconds.
\<close>

record timeval =
  tv_sec :: int
  tv_usec :: int

definition timersub :: "timeval \<Rightarrow> timeval \<Rightarrow> timeval" where
  "timersub a b =
     (let s = tv_sec a - tv_sec b; u = tv_usec a - tv_usec b
      in if u < 0 then \<lparr>tv_sec = s - 1, tv_usec = u + 1000000\<rparr>
         else \<lparr>tv_sec = s, tv_usec = u\<rparr>)"

definition timercmp_gt :: "timeval \<Rightarrow> timeval \<Rightarrow> bool" where
  "timercmp_gt a b =
     (if tv_sec a = tv_sec b then tv_usec a > tv_usec b else tv_sec a > tv_sec b)"



subsection \<open>Messages, configuration, mediator state\<close>

record PSDMessage =
  msg_realTimeStamp :: timeval
  msg_timeStamp :: timeval
  msg_sampleRate :: nat
  msg_measuredSampleRate :: nat
  msg_looped :: bool
  msg_data :: "SUFLOAT list"

record GuiConfig =
  enableMsgTTL :: bool
  msgTTL :: int

text \<open>
  What \<^verbatim>\<open>feedPSD\<close> does to its collaborators (the mediator's own rate setters, the
  averager and the spectrum widget) is recorded as the sequence of calls it makes.
\<close>

datatype ui_call =
    SetSampleRate nat
  | SetProcessRate nat
  | AveragerFeed PSDMessage
  | SpectrumFeed timeval bool

record UIMediator =
  haveRtDelta :: bool
  rtDelta :: timeval
  calls :: "ui_call list"

definition call :: "ui_call \<Rightarrow> UIMediator \<Rightarrow> UIMediator" where
  "call c m = m\<lparr>calls := calls m @ [c]\<rparr>"

text \<open>
  Lines 33 to 63 of \<^verbatim>\<open>feedPSD\<close>: the computation of \<^verbatim>\<open>expired\<close>, with the clock
  reading \<^verbatim>\<open>now\<close> of \<^verbatim>\<open>gettimeofday\<close> as an input.
\<close>

definition feedPSD_expired ::
  "GuiConfig \<Rightarrow> timeval \<Rightarrow> PSDMessage \<Rightarrow> UIMediator \<Rightarrow> UIMediator \<times> bool" where
  "feedPSD_expired cfg now msg m =
     (if enableMsgTTL cfg then
        let max_delta = \<lparr>tv_sec = msgTTL cfg sdiv 1000,
                         tv_usec = (msgTTL cfg smod 1000) * 1000\<rparr>;
            rttime = msg_realTimeStamp msg
        in if \<not> haveRtDelta m then
             (m\<lparr>rtDelta := timersub now rttime, haveRtDelta := True\<rparr>, False)
           else
             let diff = timersub now rttime;
                 m' = (if timercmp_gt (rtDelta m) diff then m\<lparr>rtDelta := diff\<rparr> else m);
                 diff' = timersub diff (rtDelta m')
             in (m', timercmp_gt diff' max_delta)
      else (m, False))"

definition feedPSD :: "GuiConfig \<Rightarrow> timeval \<Rightarrow> PSDMessage \<Rightarrow> UIMediator \<Rightarrow> UIMediator" where
  "feedPSD cfg now msg m =
     (let (m1, expired) = feedPSD_expired cfg now msg m;
          m2 = call (SetSampleRate (msg_sampleRate msg)) m1
      in if \<not> expired then
           call (SpectrumFeed (msg_timeStamp msg) (msg_looped msg))
             (call (AveragerFeed msg)
               (call (SetProcessRate (msg_measuredSampleRate msg)) m2))
         else m2)"


subsection \<open>The staleness filter as the specification words it\<close>







subsection \<open>A session to run the filter on\<close>

definition tv :: "int \<Rightarrow> int \<Rightarrow> timeval" where
  "tv s u = \<lparr>tv_sec = s, tv_usec = u\<rparr>"

definition frameAt :: "timeval \<Rightarrow> timeval \<Rightarrow> timeval \<times> PSDMessage" where
  "frameAt now rt =
     (now, \<lparr>msg_realTimeStamp = rt, msg_timeStamp = rt, msg_sampleRate = 250000,
            msg_measuredSampleRate = 240000, msg_looped = False, msg_data = [-90, -85.5]\<rparr>)"


definition ttl50 :: GuiConfig where
  "ttl50 = \<lparr>enableMsgTTL = True, msgTTL = 50\<rparr>"


definition mediator80 :: UIMediator where
  "mediator80 = \<lparr>haveRtDelta = True, rtDelta = tv 0 80000, calls = []\<rparr>"



section \<open>PanoramicDialog\<close>

subsection \<open>Widgets\<close>

text \<open>
  The range spin boxes are widgets of the toolkit. What the dialog relies on is the
  toolkit's documented behaviour: a spin box keeps its value between its minimum and its
  maximum; \<^verbatim>\<open>setValue\<close> bounds the new value, \<^verbatim>\<open>setMinimum\<close> and \<^verbatim>\<open>setMaximum\<close>
  move the other bound when the range would become empty and bound the current value
  again. The handlers are modelled as the calls they are; signals that a widget raises
  while a handler runs are not followed into the slots connected to them.
\<close>

record SpinBox =
  sb_minimum :: real
  sb_maximum :: real
  sb_value :: real





text \<open>
  The waterfall is a widget of a separate library. The dialog is modelled over any
  implementation of it: \<open>'w\<close> is the widget's state, and the record below holds the
  member functions that the dialog calls, the getters as functions of that state and
  the setters as state transformers. \<^verbatim>\<open>getSpanFreq\<close> is taken after the cast to
  \<^verbatim>\<open>qint64\<close> that the one caller applies.
\<close>

record 'w Waterfall =
  getCenterFreq :: "'w \<Rightarrow> qint64"
  getFftCenterFreq :: "'w \<Rightarrow> qint64"
  getSpanFreq :: "'w \<Rightarrow> qint64"
  setCenterFreq :: "qint64 \<Rightarrow> 'w \<Rightarrow> 'w"
  setSampleRate :: "qint64 \<Rightarrow> 'w \<Rightarrow> 'w"
  setLocked :: "bool \<Rightarrow> 'w \<Rightarrow> 'w"
  setDemodRanges :: "qint64 \<Rightarrow> qint64 \<Rightarrow> qint64 \<Rightarrow> qint64 \<Rightarrow> bool \<Rightarrow> 'w \<Rightarrow> 'w"
  setHiLowCutFrequencies :: "qint64 \<Rightarrow> qint64 \<Rightarrow> 'w \<Rightarrow> 'w"
  resetHorizontalZoom :: "'w \<Rightarrow> 'w"
  setRunningState :: "bool \<Rightarrow> 'w \<Rightarrow> 'w"
  setFreqUnits :: "int \<Rightarrow> 'w \<Rightarrow> 'w"
  setSpanFreq :: "qint64 \<Rightarrow> 'w \<Rightarrow> 'w"

subsection \<open>Dialog state\<close>

record Device =
  dev_desc :: string
  dev_driver :: string
  dev_minFreq :: SUFREQ
  dev_maxFreq :: SUFREQ

text \<open>
  The signals the dialog emits, and the modal message box it shows, in the order in
  which they happen.
\<close>

datatype dlg_event =
    DetailChanged qint64 qint64 bool
  | Start
  | Stop
  | MessageBoxCritical string string

text \<open>
  The members and widgets that the handlers below read or write. \<^verbatim>\<open>minBwForZoom\<close> is
  an unsigned 64-bit integer (its setter takes \<^verbatim>\<open>quint64\<close>, and \<^verbatim>\<open>setWfRange\<close> casts
  it to \<^verbatim>\<open>qint64\<close>); \<^verbatim>\<open>relBwSlider\<close> holds the slider's integer position.
\<close>

record 'w PanoramicDialog =
  waterfall :: 'w
  rangeStartSpin :: SpinBox
  rangeEndSpin :: SpinBox
  lnbDoubleSpinBox :: SUFREQ
  fullRangeCheck :: bool
  scanButton_checked :: bool
  scanButton_text :: string
  relBwSlider :: int
  deviceCombo_currentText :: string
  deviceMap :: "string \<rightharpoonup> Device"
  bannedDevice :: string
  fixedFreqMode :: bool
  adjustingRange :: bool
  minBwForZoom :: nat
  currBw :: qint64
  emitted :: "dlg_event list"

definition emit :: "dlg_event \<Rightarrow> 'w PanoramicDialog \<Rightarrow> 'w PanoramicDialog" where
  "emit e s = s\<lparr>emitted := emitted s @ [e]\<rparr>"


definition getMinFreq :: "'w PanoramicDialog \<Rightarrow> SUFREQ" where
  "getMinFreq s = sb_value (rangeStartSpin s)"

definition getMaxFreq :: "'w PanoramicDialog \<Rightarrow> SUFREQ" where
  "getMaxFreq s = sb_value (rangeEndSpin s)"

text \<open>\<^verbatim>\<open>relBwSlider->value() / 100.f\<close>: an \<^verbatim>\<open>int\<close> divided by a \<^verbatim>\<open>float\<close>.\<close>

definition getRelBw :: "'w PanoramicDialog \<Rightarrow> real" where
  "getRelBw s = f32 (f32 (of_int (relBwSlider s)) / 100)"

definition getSelectedDevice :: "'w PanoramicDialog \<Rightarrow> Device option" where
  "getSelectedDevice s = deviceMap s (deviceCombo_currentText s)"

subsection \<open>setWfRange\<close>

definition setWfRange ::
  "'w Waterfall \<Rightarrow> qint64 \<Rightarrow> qint64 \<Rightarrow> 'w PanoramicDialog \<Rightarrow> 'w PanoramicDialog" where
  "setWfRange wfl freqStart freqEnd s =
     (if fixedFreqMode s then
        let bw = int (minBwForZoom s)
        in if bw \<noteq> currBw s
           then s\<lparr>waterfall := setSampleRate wfl bw (waterfall s), currBw := bw\<rparr>
           else s
      else
        let fc = to_qint64 (0.5 * of_int (freqEnd + freqStart));
            bw = freqEnd - freqStart;
            w1 = setCenterFreq wfl fc (waterfall s)
        in if bw \<noteq> currBw s then
             let demodBw = bw sdiv 10;
                 w2 = setLocked wfl False w1;
                 w3 = setSampleRate wfl bw w2;
                 w4 = setDemodRanges wfl ((- bw) sdiv 2) 0 0 (bw sdiv 2) True w3;
                 demodBw' = (if demodBw > 4000000000 then 4000000000 else demodBw);
                 w5 = setHiLowCutFrequencies wfl ((- demodBw') sdiv 2) (demodBw' sdiv 2) w4;
                 w6 = resetHorizontalZoom wfl w5
             in s\<lparr>waterfall := w6, currBw := bw\<rparr>
           else s\<lparr>waterfall := w1\<rparr>)"

subsection \<open>adjustRanges, invalidRange, getFrequencyUnits, setRanges\<close>





subsection \<open>onToggleScan\<close>

text \<open>
  \<^verbatim>\<open>dev0\<close> is the default-constructed device that \<^verbatim>\<open>dev\<close> stays when no device is
  selected.
\<close>

definition onToggleScan ::
  "'w Waterfall \<Rightarrow> Device \<Rightarrow> 'w PanoramicDialog \<Rightarrow> 'w PanoramicDialog" where
  "onToggleScan wfl dev0 s =
     (let s1 =
        (if scanButton_checked s then
           let dev = (case getSelectedDevice s of Some d \<Rightarrow> d | None \<Rightarrow> dev0)
           in if length (bannedDevice s) > 0 \<and> dev_desc dev = bannedDevice s then
                (emit (MessageBoxCritical ''Panoramic spectrum error error''
                   ''Scan cannot start because the selected device is in use by the main window.'')
                   s)\<lparr>scanButton_checked := False\<rparr>
              else emit Start s
         else emit Stop s);
          s2 = s1\<lparr>waterfall := setRunningState wfl (scanButton_checked s1) (waterfall s1)\<rparr>
      in s2\<lparr>scanButton_text := (if scanButton_checked s2 then ''Stop'' else ''Start scan'')\<rparr>)"

subsection \<open>onNewZoomLevel\<close>

text \<open>
  Lines 1001 to 1026: the requested window \<open>[fc - span / 2, fc + span / 2]\<close> is
  pushed back into the range and then cut at the range's ends; the result is the
  window and the two flags \<^verbatim>\<open>adjLeft\<close> and \<^verbatim>\<open>adjRight\<close>.
\<close>

definition zoomWindow ::
  "SUFREQ \<Rightarrow> SUFREQ \<Rightarrow> qint64 \<Rightarrow> qint64 \<Rightarrow> qint64 \<times> qint64 \<times> bool \<times> bool" where
  "zoomWindow minFreq maxFreq fc spanHz =
     (let min0 = fc - spanHz sdiv 2;
          max0 = fc + spanHz sdiv 2;
          (min1, max1, adj) =
            (if of_int min0 < minFreq \<and> of_int max0 \<le> maxFreq then
               let extra = to_qint64 minFreq - min0
               in (min0 + extra, max0 + extra, True)
             else if of_int min0 \<ge> minFreq \<and> of_int max0 > maxFreq then
               let extra = max0 - to_qint64 maxFreq
               in (min0 - extra, max0 - extra, True)
             else (min0, max0, False));
          (min2, adjLeft) =
            (if of_int min1 < minFreq then (to_qint64 minFreq, True) else (min1, adj));
          (max2, adjRight) =
            (if of_int max1 > maxFreq then (to_qint64 maxFreq, True) else (max1, adj))
      in (min2, max2, adjLeft, adjRight))"

text \<open>
  Line 1031, \<^verbatim>\<open>max - min <= this->minBwForZoom * this->getRelBw()\<close>: the product of an
  unsigned integer and a \<^verbatim>\<open>float\<close> is a \<^verbatim>\<open>float\<close>, and the width on the left is
  converted to \<^verbatim>\<open>float\<close> for the comparison. The slot's own \<^verbatim>\<open>float\<close> argument has
  no name and is not used; what the handler works on is the waterfall's state.
\<close>

definition fixedFreqTest :: "qint64 \<Rightarrow> nat \<Rightarrow> real \<Rightarrow> bool" where
  "fixedFreqTest width minBw relBw = (f32 (of_int width) \<le> f32 (f32 (of_nat minBw) * relBw))"

definition onNewZoomLevel :: "'w Waterfall \<Rightarrow> 'w PanoramicDialog \<Rightarrow> 'w PanoramicDialog" where
  "onNewZoomLevel wfl s =
     (let fc = getCenterFreq wfl (waterfall s) + getFftCenterFreq wfl (waterfall s);
          spanHz = getSpanFreq wfl (waterfall s)
      in if \<not> adjustingRange s then
           let s1 = s\<lparr>adjustingRange := True\<rparr>;
               (min1, max1, adjLeft, adjRight) = zoomWindow (getMinFreq s1) (getMaxFreq s1) fc spanHz;
               s2 = (if adjLeft \<and> adjRight
                     then s1\<lparr>waterfall := resetHorizontalZoom wfl (waterfall s1)\<rparr> else s1);
               s3 = s2\<lparr>fixedFreqMode :=
                         fixedFreqTest (max1 - min1) (minBwForZoom s2) (getRelBw s2)\<rparr>;
               (min2, max2) =
                 (if fixedFreqMode s3 then
                    let fc' = getCenterFreq wfl (waterfall s3)
                    in (fc' - spanHz sdiv 2, fc' + spanHz sdiv 2)
                  else (min1, max1));
               s4 = setWfRange wfl min2 max2 s3;
               s5 = s4\<lparr>adjustingRange := False\<rparr>
           in emit (DetailChanged min2 max2 (fixedFreqMode s5)) s5
         else s)"

text \<open>
  Three quantities of a zoom change, read off the handler: the window after lines 1001
  to 1026 with its two flags, its width (the left side of the comparison in line 1031),
  and the frequency that line 1034 reads as the waterfall's centre, after
  \<^verbatim>\<open>resetHorizontalZoom\<close> when line 1029 has called it.
\<close>

definition zoomRequest ::
  "'w Waterfall \<Rightarrow> 'w PanoramicDialog \<Rightarrow> qint64 \<times> qint64 \<times> bool \<times> bool" where
  "zoomRequest wfl s =
     zoomWindow (getMinFreq s) (getMaxFreq s)
       (getCenterFreq wfl (waterfall s) + getFftCenterFreq wfl (waterfall s))
       (getSpanFreq wfl (waterfall s))"

definition zoomWidth :: "'w Waterfall \<Rightarrow> 'w PanoramicDialog \<Rightarrow> qint64" where
  "zoomWidth wfl s = (case zoomRequest wfl s of (mn, mx, l, r) \<Rightarrow> mx - mn)"

definition zoomTunedCenter :: "'w Waterfall \<Rightarrow> 'w PanoramicDialog \<Rightarrow> qint64" where
  "zoomTunedCenter wfl s =
     (case zoomRequest wfl s of (mn, mx, l, r) \<Rightarrow>
        getCenterFreq wfl
          (if l \<and> r then resetHorizontalZoom wfl (waterfall s) else waterfall s))"


subsection \<open>onNewCenterFreq\<close>

definition panWindow :: "SUFREQ \<Rightarrow> SUFREQ \<Rightarrow> qint64 \<Rightarrow> qint64 \<Rightarrow> qint64 \<times> qint64 \<times> bool" where
  "panWindow minFreq maxFreq spanHz freq =
     (let min0 = freq - spanHz sdiv 2;
          max0 = freq + spanHz sdiv 2;
          leftBorder = (of_int min0 \<le> minFreq);
          min1 = (if leftBorder then to_qint64 minFreq else min0);
          rightBorder = (of_int max0 \<ge> maxFreq);
          max1 = (if rightBorder then to_qint64 maxFreq else max0)
      in if rightBorder \<or> leftBorder then
           if leftBorder \<and> \<not> rightBorder then (min1, min1 + spanHz, True)
           else if rightBorder \<and> \<not> leftBorder then (max1 - spanHz, max1, True)
           else (min1, max1, True)
         else (min1, max1, False))"

definition onNewCenterFreq ::
  "'w Waterfall \<Rightarrow> qint64 \<Rightarrow> 'w PanoramicDialog \<Rightarrow> 'w PanoramicDialog" where
  "onNewCenterFreq wfl freq s =
     (let (min1, max1, border) = panWindow (getMinFreq s) (getMaxFreq s) (currBw s) freq;
          s1 = (if border
                then s\<lparr>waterfall :=
                         setCenterFreq wfl (to_qint64 (0.5 * of_int (max1 + min1))) (waterfall s)\<rparr>
                else s)
      in emit (DetailChanged min1 max1 (fixedFreqMode s1)) s1)"

subsection \<open>A waterfall to run the handlers on\<close>

text \<open>
  A waterfall that stores what it is given and, on \<^verbatim>\<open>resetHorizontalZoom\<close>, shows its
  whole sample rate again around the tuned frequency.
\<close>

record wf_state =
  wf_center :: qint64
  wf_fftCenter :: qint64
  wf_span :: qint64
  wf_sampleRate :: qint64
  wf_running :: bool

definition plainWaterfall :: "wf_state Waterfall" where
  "plainWaterfall =
     \<lparr>getCenterFreq = wf_center,
      getFftCenterFreq = wf_fftCenter,
      getSpanFreq = wf_span,
      setCenterFreq = (\<lambda>f w. w\<lparr>wf_center := f\<rparr>),
      setSampleRate = (\<lambda>r w. w\<lparr>wf_sampleRate := r\<rparr>),
      setLocked = (\<lambda>b w. w),
      setDemodRanges = (\<lambda>a b c d e w. w),
      setHiLowCutFrequencies = (\<lambda>a b w. w),
      resetHorizontalZoom = (\<lambda>w. w\<lparr>wf_fftCenter := 0, wf_span := wf_sampleRate w\<rparr>),
      setRunningState = (\<lambda>b w. w\<lparr>wf_running := b\<rparr>),
      setFreqUnits = (\<lambda>u w. w),
      setSpanFreq = (\<lambda>f w. w\<lparr>wf_span := f\<rparr>)\<rparr>"

definition spin :: "real \<Rightarrow> real \<Rightarrow> real \<Rightarrow> SpinBox" where
  "spin lo v hi = \<lparr>sb_minimum = lo, sb_maximum = hi, sb_value = v\<rparr>"

text \<open>
  A dialog on a device \<^verbatim>\<open>"rtl0"\<close> with the range from 0 to \<open>hi\<close>, showing
  \<open>spanHz\<close> around \<open>center\<close>, with the last applied bandwidth \<open>bw\<close>.
\<close>

definition rtl0 :: Device where
  "rtl0 = \<lparr>dev_desc = ''rtl0'', dev_driver = ''rtlsdr'', dev_minFreq = 0, dev_maxFreq = 2000000\<rparr>"

definition noDevice :: Device where
  "noDevice = \<lparr>dev_desc = [], dev_driver = [], dev_minFreq = 0, dev_maxFreq = 0\<rparr>"

definition dialog0 ::
  "real \<Rightarrow> qint64 \<Rightarrow> qint64 \<Rightarrow> qint64 \<Rightarrow> nat \<Rightarrow> int \<Rightarrow> wf_state PanoramicDialog" where
  "dialog0 hi center spanHz bw minBw slider =
     \<lparr>waterfall = \<lparr>wf_center = center, wf_fftCenter = 0, wf_span = spanHz,
                   wf_sampleRate = bw, wf_running = False\<rparr>,
      rangeStartSpin = spin 0 0 hi,
      rangeEndSpin = spin 0 hi hi,
      lnbDoubleSpinBox = 0,
      fullRangeCheck = False,
      scanButton_checked = True,
      scanButton_text = ''Start scan'',
      relBwSlider = slider,
      deviceCombo_currentText = ''rtl0'',
      deviceMap = [''rtl0'' \<mapsto> rtl0],
      bannedDevice = ''rtl0'',
      fixedFreqMode = False,
      adjustingRange = False,
      minBwForZoom = minBw,
      currBw = bw,
      emitted = []\<rparr>"



text \<open>
  Dialogs for the zoom and pan handlers, all with the range starting at 0:
  \<open>dlgSweep\<close> shows 200 kHz around 1 MHz with a minimum bandwidth of 100 kHz;
  \<open>dlgNarrow\<close> shows 100 kHz and \<open>dlgEqual\<close> 1 MHz around 1 MHz with a minimum
  bandwidth of 1 MHz; \<open>dlgAbove\<close> asks for 3 MHz in a range of 1000001 Hz with a
  minimum bandwidth of 1 MHz; \<open>dlgWide\<close> asks for 30 MHz in a range of 20000001 Hz
  with a minimum bandwidth of 20 MHz; \<open>dlgSlider13\<close> shows 247 kHz with a minimum
  bandwidth of 1.9 MHz and the slider at 13; \<open>dlgPanEdge\<close> has the range end at
  1 MHz and a bandwidth of 200 kHz; \<open>dlgPanWide\<close> shows the whole range from 0 to
  1 MHz with a minimum bandwidth of 1.2 MHz.
\<close>

definition dlgSweep :: "wf_state PanoramicDialog" where
  "dlgSweep = dialog0 2000000 1000000 200000 200000 100000 100"


definition dlgEqual :: "wf_state PanoramicDialog" where
  "dlgEqual = dialog0 2000000 1000000 1000000 1000000 1000000 100"

definition dlgAbove :: "wf_state PanoramicDialog" where
  "dlgAbove = dialog0 1000001 500000 3000000 3000000 1000000 100"

definition dlgWide :: "wf_state PanoramicDialog" where
  "dlgWide = dialog0 20000001 10000000 30000000 30000000 20000000 100"

definition dlgSlider13 :: "wf_state PanoramicDialog" where
  "dlgSlider13 = dialog0 2000000 1000000 247000 247000 1900000 13"

definition dlgPanEdge :: "wf_state PanoramicDialog" where
  "dlgPanEdge = dialog0 1000000 950000 200000 200000 100000 100"

definition dlgPanWide :: "wf_state PanoramicDialog" where
  "dlgPanWide = dialog0 1000000 500000 1000000 1000000 1200000 100"

section \<open>Proofs: gain map\<close>

text \<open>
  C10. \<^verbatim>\<open>getGain(dev, name)\<close> is 0 when the gain map has no entry under
  \<^verbatim>\<open>"gain." + dev + "." + name\<close>; after \<^verbatim>\<open>setGain(dev, name, v)\<close>, \<^verbatim>\<open>getGain\<close> of the
  same device and name returns \<open>v\<close> and \<^verbatim>\<open>hasGain\<close> returns true.
\<close>

theorem gain_set_get_roundtrip:
  "(gains c (''gain.'' @ dev @ ''.'' @ name) = None \<longrightarrow> getGain c dev name = 0) \<and>
   getGain (setGain c dev name v) dev name = v \<and>
   hasGain (setGain c dev name v) dev name"
  by (simp add: getGain_def setGain_def hasGain_def gainFullName_def)

theorem gain_set_get_roundtrip_witness:
  "gains emptyConfig (''gain.'' @ ''rtlsdr'' @ ''.'' @ ''TUNER'') = None \<and>
   getGain emptyConfig ''rtlsdr'' ''TUNER'' = 0 \<and>
   getGain (setGain emptyConfig ''rtlsdr'' ''TUNER'' 30) ''rtlsdr'' ''TUNER'' = 30 \<and>
   hasGain (setGain emptyConfig ''rtlsdr'' ''TUNER'' 30) ''rtlsdr'' ''TUNER''"
  using gain_set_get_roundtrip [of emptyConfig "''rtlsdr''" "''TUNER''" 30]
  by (simp add: emptyConfig_def)


section \<open>Proofs: the time-to-live filter\<close>



lemma sdiv_smod_nonneg:
  assumes "0 \<le> (t::int)"
  shows "t sdiv 1000 = t div 1000" and "t smod 1000 = t mod 1000"
  using assms by (auto simp: signed_divide_int_def signed_modulo_int_def sgn_if)












text \<open>A dropped frame leaves the filter state as it was.\<close>

lemma expired_state_unchanged:
  assumes ex: "snd (feedPSD_expired cfg now msg m)" and ttl: "0 \<le> msgTTL cfg"
  shows "fst (feedPSD_expired cfg now msg m) = m"
proof -
  let ?diff = "timersub now (msg_realTimeStamp msg)"
  note dm = sdiv_smod_nonneg [OF ttl]
  have nn: "0 \<le> msgTTL cfg div 1000" "0 \<le> msgTTL cfg mod 1000"
    using ttl by (simp_all add: pos_imp_zdiv_nonneg_iff)
  have z: "\<not> timercmp_gt (timersub ?diff ?diff)
              \<lparr>tv_sec = msgTTL cfg sdiv 1000, tv_usec = (msgTTL cfg smod 1000) * 1000\<rparr>"
    using nn unfolding dm
    by (auto simp add: timercmp_gt_def timersub_def Let_def)
  show ?thesis
  proof (cases "timercmp_gt (rtDelta m) ?diff")
    case True
    with ex z show ?thesis
      by (simp add: feedPSD_expired_def Let_def split: if_splits)
  next
    case False
    with ex show ?thesis
      by (simp add: feedPSD_expired_def Let_def split: if_splits)
  qed
qed

text \<open>
  C4, as the code has it. For every frame that the filter drops (with a non-negative
  limit), \<^verbatim>\<open>feedPSD\<close> calls \<^verbatim>\<open>setSampleRate\<close> with the frame's nominal sample rate and
  does nothing else: the measured rate is not passed to \<^verbatim>\<open>setProcessRate\<close>, the
  averager and the spectrum are not fed, and the filter state is unchanged.
\<close>

theorem dropped_frame_updates_sample_rate_only:
  assumes "snd (feedPSD_expired cfg now msg m)" and "0 \<le> msgTTL cfg"
  shows "feedPSD cfg now msg m = m\<lparr>calls := calls m @ [SetSampleRate (msg_sampleRate msg)]\<rparr>"
  using assms(1) expired_state_unchanged [OF assms]
  by (simp add: feedPSD_def call_def Let_def case_prod_beta)

theorem dropped_frame_updates_sample_rate_only_witness:
  "snd (feedPSD_expired ttl50 (tv 12 150000) (snd (frameAt (tv 12 150000) (tv 12 0))) mediator80) \<and>
   0 \<le> msgTTL ttl50 \<and>
   feedPSD ttl50 (tv 12 150000) (snd (frameAt (tv 12 150000) (tv 12 0))) mediator80 =
     mediator80\<lparr>calls := [SetSampleRate 250000]\<rparr>"
proof -
  have h: "snd (feedPSD_expired ttl50 (tv 12 150000) (snd (frameAt (tv 12 150000) (tv 12 0))) mediator80)"
    "0 \<le> msgTTL ttl50"
    by (simp_all add: feedPSD_expired_def ttl50_def frameAt_def tv_def mediator80_def
        timersub_def timercmp_gt_def signed_divide_int_def signed_modulo_int_def Let_def)
  from dropped_frame_updates_sample_rate_only [OF h] h show ?thesis
    by (simp add: mediator80_def frameAt_def)
qed

text \<open>
  The claim as the specification states it fails: the frame that arrives 150 ms after its
  capture, with the minimum delay at 80 ms and a limit of 50 ms, is dropped, and its
  measured rate does not reach \<^verbatim>\<open>setProcessRate\<close>.
\<close>

theorem dropped_frame_measured_rate_counterexample:
  "snd (feedPSD_expired ttl50 (tv 12 150000) (snd (frameAt (tv 12 150000) (tv 12 0))) mediator80) \<and>
   SetProcessRate (msg_measuredSampleRate (snd (frameAt (tv 12 150000) (tv 12 0))))
     \<notin> set (calls (feedPSD ttl50 (tv 12 150000) (snd (frameAt (tv 12 150000) (tv 12 0))) mediator80))"
  by (simp add: feedPSD_def feedPSD_expired_def call_def ttl50_def frameAt_def tv_def
      mediator80_def timersub_def timercmp_gt_def signed_divide_int_def signed_modulo_int_def
      Let_def)


section \<open>Proofs: frequency range\<close>











section \<open>Proofs: starting a scan\<close>

text \<open>
  C9. When the scan button is checked while the selected device is the banned one,
  \<^verbatim>\<open>onToggleScan\<close> shows the error box and emits nothing else (no \<^verbatim>\<open>start\<close>), unchecks
  the button, and leaves the range spin boxes, the full-range box and the LNB offset as
  they were.
\<close>

theorem banned_device_refuses_start:
  assumes "scanButton_checked s"
    and "bannedDevice s \<noteq> []"
    and "dev_desc (case getSelectedDevice s of Some d \<Rightarrow> d | None \<Rightarrow> dev0) = bannedDevice s"
  shows "emitted (onToggleScan wfl dev0 s) =
           emitted s @ [MessageBoxCritical ''Panoramic spectrum error error''
             ''Scan cannot start because the selected device is in use by the main window.'']
         \<and> \<not> scanButton_checked (onToggleScan wfl dev0 s)
         \<and> scanButton_text (onToggleScan wfl dev0 s) = ''Start scan''
         \<and> rangeStartSpin (onToggleScan wfl dev0 s) = rangeStartSpin s
         \<and> rangeEndSpin (onToggleScan wfl dev0 s) = rangeEndSpin s
         \<and> fullRangeCheck (onToggleScan wfl dev0 s) = fullRangeCheck s
         \<and> lnbDoubleSpinBox (onToggleScan wfl dev0 s) = lnbDoubleSpinBox s"
  using assms by (auto simp add: onToggleScan_def emit_def Let_def)

theorem banned_device_refuses_start_witness:
  "scanButton_checked (dialog0 2000000 1000000 200000 200000 100000 100) \<and>
   bannedDevice (dialog0 2000000 1000000 200000 200000 100000 100) = ''rtl0'' \<and>
   getSelectedDevice (dialog0 2000000 1000000 200000 200000 100000 100) = Some rtl0 \<and>
   emitted (onToggleScan plainWaterfall noDevice (dialog0 2000000 1000000 200000 200000 100000 100)) =
     [MessageBoxCritical ''Panoramic spectrum error error''
        ''Scan cannot start because the selected device is in use by the main window.''] \<and>
   getMinFreq (onToggleScan plainWaterfall noDevice (dialog0 2000000 1000000 200000 200000 100000 100)) = 0 \<and>
   getMaxFreq (onToggleScan plainWaterfall noDevice (dialog0 2000000 1000000 200000 200000 100000 100)) = 2000000"
proof -
  let ?d = "dialog0 2000000 1000000 200000 200000 100000 100"
  have h: "scanButton_checked ?d" "bannedDevice ?d \<noteq> []"
    "dev_desc (case getSelectedDevice ?d of Some d \<Rightarrow> d | None \<Rightarrow> noDevice) = bannedDevice ?d"
    by (simp_all add: dialog0_def getSelectedDevice_def rtl0_def)
  have v: "bannedDevice ?d = ''rtl0''" "getSelectedDevice ?d = Some rtl0" "emitted ?d = []"
    "rangeStartSpin ?d = spin 0 0 2000000" "rangeEndSpin ?d = spin 0 2000000 2000000"
    by (simp_all add: dialog0_def getSelectedDevice_def)
  from banned_device_refuses_start [OF h, of plainWaterfall] h v show ?thesis
    by (simp add: getMinFreq_def getMaxFreq_def spin_def)
qed


section \<open>Proofs: single precision\<close>

text \<open>Integers of magnitude up to \<open>2 ^ 24\<close> are single-precision numbers.\<close>

lemma round_half_even_of_int: "round_half_even (of_int m) = m"
  by (simp add: round_half_even_def)

lemma f32_int_exact:
  assumes "\<bar>n\<bar> \<le> 2 ^ 24"
  shows "f32 (of_int n) = of_int n"
proof (cases "n = 0")
  case True
  then show ?thesis by (simp add: f32_def)
next
  case False
  define a where "a = \<bar>n\<bar>"
  have apos: "0 < a" and ale: "a \<le> 2 ^ 24" using False assms by (simp_all add: a_def)
  define e where "e = bitlen a - 1"
  have il: "ilog2 \<bar>of_int n\<bar> = e"
  proof -
    have "\<bar>real_of_int n\<bar> = of_int a" by (simp add: a_def)
    moreover have "(1::real) \<le> of_int a" using apos by simp
    ultimately show ?thesis by (simp add: ilog2_def e_def)
  qed
  have e0: "0 \<le> e" using apos bitlen_eq_zero_iff [of a] bitlen_nonneg [of a]
    by (simp add: e_def)
  have lb: "2 ^ nat e \<le> a" using bitlen_bounds [OF apos] by (simp add: e_def)
  have p: "(2::int) ^ nat e \<le> 2 ^ 24" using lb ale by linarith
  have "nat e \<le> 24" by (rule power_le_imp_le_exp [OF _ p]) simp
  then have e24: "e \<le> 24" by simp
  have "\<exists>m. real_of_int n / pow2 (e - 23) = of_int m"
  proof (cases "e = 24")
    case True
    then have "a = 2 ^ 24" using lb ale by simp
    then have "n = 2 ^ 24 \<or> n = - (2 ^ 24)" by (simp add: a_def) linarith
    then show ?thesis
    proof
      assume "n = 2 ^ 24"
      then have "real_of_int n / pow2 (e - 23) = of_int (2 ^ 23)"
        using True by (simp add: pow2_def)
      then show ?thesis by blast
    next
      assume "n = - (2 ^ 24)"
      then have "real_of_int n / pow2 (e - 23) = of_int (- (2 ^ 23))"
        using True by (simp add: pow2_def)
      then show ?thesis by blast
    qed
  next
    case False
    then have "e - 23 \<le> 0" using e24 by simp
    then have "real_of_int n / pow2 (e - 23) = of_int (n * 2 ^ nat (23 - e))"
      by (cases "e = 23") (simp_all add: pow2_def)
    then show ?thesis by blast
  qed
  then obtain m where m: "real_of_int n / pow2 (e - 23) = of_int m" by blast
  have pz: "pow2 (e - 23) \<noteq> 0" by (simp add: pow2_def)
  have "of_int (round_half_even (real_of_int n / pow2 (e - 23))) * pow2 (e - 23) = of_int n"
    unfolding m round_half_even_of_int using m pz by (simp add: field_simps)
  then show ?thesis using False il by (simp add: f32_def Let_def)
qed

lemma f32_nat_exact: "m \<le> 2 ^ 24 \<Longrightarrow> f32 (of_nat m) = of_nat m"
  using f32_int_exact [of "int m"] by simp

lemma getRelBw_full: "relBwSlider s = 100 \<Longrightarrow> getRelBw s = 1"
  using f32_int_exact [of 100] f32_int_exact [of 1] by (simp add: getRelBw_def)

lemma fixedFreqTest_exact:
  assumes "\<bar>w\<bar> \<le> 2 ^ 24" "m \<le> 2 ^ 24"
  shows "fixedFreqTest w m 1 = (w \<le> int m)"
  using f32_int_exact [OF assms(1)] f32_nat_exact [OF assms(2)]
  by (simp add: fixedFreqTest_def) linarith

text \<open>Roundings outside the exact range, computed.\<close>

lemma f32_values:
  "f32 20000001 = 20000000"
  "f32 20000000 = 20000000"
  "f32 (13 / 100) = 1090519 / 8388608"
  "f32 (64749565625 / 262144) = 15807999 / 64"
  by code_simp+

lemma f32_small:
  "f32 13 = 13" "f32 1900000 = 1900000" "f32 247000 = 247000"
  using f32_int_exact [of 13] f32_int_exact [of 1900000] f32_int_exact [of 247000]
  by simp_all


section \<open>Proofs: zoom and pan\<close>

lemma emitted_setWfRange [simp]: "emitted (setWfRange wfl a b s) = emitted s"
  by (simp add: setWfRange_def Let_def)

lemma fixedFreqMode_setWfRange [simp]: "fixedFreqMode (setWfRange wfl a b s) = fixedFreqMode s"
  by (simp add: setWfRange_def Let_def)


lemma onNewZoomLevel_mode:
  "\<not> adjustingRange s \<Longrightarrow>
   fixedFreqMode (onNewZoomLevel wfl s) =
     fixedFreqTest (zoomWidth wfl s) (minBwForZoom s) (getRelBw s)"
  by (simp add: onNewZoomLevel_def zoomWidth_def zoomRequest_def emit_def Let_def getRelBw_def
      getMinFreq_def getMaxFreq_def split: prod.splits)

lemma onNewZoomLevel_emitted:
  "\<not> adjustingRange s \<Longrightarrow>
   emitted (onNewZoomLevel wfl s) = emitted s @
     [if fixedFreqMode (onNewZoomLevel wfl s)
      then DetailChanged (zoomTunedCenter wfl s - getSpanFreq wfl (waterfall s) sdiv 2)
             (zoomTunedCenter wfl s + getSpanFreq wfl (waterfall s) sdiv 2) True
      else DetailChanged (fst (zoomRequest wfl s)) (fst (snd (zoomRequest wfl s))) False]"
  by (simp add: onNewZoomLevel_def zoomTunedCenter_def zoomRequest_def emit_def Let_def getRelBw_def
      getMinFreq_def getMaxFreq_def split: prod.splits)


lemma onNewZoomLevel_guarded: "adjustingRange s \<Longrightarrow> onNewZoomLevel wfl s = s"
  by (simp add: onNewZoomLevel_def Let_def)

lemma onNewZoomLevel_unguarded_after:
  "\<not> adjustingRange s \<Longrightarrow> \<not> adjustingRange (onNewZoomLevel wfl s)"
  by (simp add: onNewZoomLevel_def emit_def Let_def split: prod.splits)

lemma onNewCenterFreq_emitted:
  "emitted (onNewCenterFreq wfl freq s) =
     emitted s @ [DetailChanged (fst (panWindow (getMinFreq s) (getMaxFreq s) (currBw s) freq))
                    (fst (snd (panWindow (getMinFreq s) (getMaxFreq s) (currBw s) freq)))
                    (fixedFreqMode s)]"
  by (simp add: onNewCenterFreq_def emit_def Let_def split: prod.splits)

lemma setWfRange_same_width:
  "\<not> fixedFreqMode s \<Longrightarrow> b - a = currBw s \<Longrightarrow>
   setWfRange wfl a b s =
     s\<lparr>waterfall := setCenterFreq wfl (to_qint64 (0.5 * of_int (b + a))) (waterfall s)\<rparr>"
  "fixedFreqMode s \<Longrightarrow> int (minBwForZoom s) = currBw s \<Longrightarrow> setWfRange wfl a b s = s"
  by (simp_all add: setWfRange_def Let_def)

lemma to_qint64_of_int [simp]: "to_qint64 (of_int k) = k"
  by (simp add: to_qint64_def)

lemma sdiv2_nonneg: "0 \<le> (k::int) \<Longrightarrow> k sdiv 2 = k div 2"
  by (auto simp: signed_divide_int_def sgn_if)

lemma panWindow_cases:
  fixes lo hi :: int
  defines "min0 \<equiv> \<lambda>spanHz freq. freq - spanHz sdiv 2"
    and "max0 \<equiv> \<lambda>spanHz freq. freq + spanHz sdiv (2::int)"
  shows "min0 spanHz freq \<le> lo \<Longrightarrow> max0 spanHz freq < hi \<Longrightarrow>
           panWindow (of_int lo) (of_int hi) spanHz freq = (lo, lo + spanHz, True)"
    and "lo < min0 spanHz freq \<Longrightarrow> hi \<le> max0 spanHz freq \<Longrightarrow>
           panWindow (of_int lo) (of_int hi) spanHz freq = (hi - spanHz, hi, True)"
    and "min0 spanHz freq \<le> lo \<Longrightarrow> hi \<le> max0 spanHz freq \<Longrightarrow>
           panWindow (of_int lo) (of_int hi) spanHz freq = (lo, hi, True)"
    and "lo < min0 spanHz freq \<Longrightarrow> max0 spanHz freq < hi \<Longrightarrow>
           panWindow (of_int lo) (of_int hi) spanHz freq =
             (min0 spanHz freq, max0 spanHz freq, False)"
  by (simp_all add: panWindow_def Let_def min0_def max0_def)

lemma panWindow_inside:
  fixes lo hi :: int
  assumes "0 \<le> spanHz" "spanHz \<le> hi - lo"
  shows "lo \<le> fst (panWindow (of_int lo) (of_int hi) spanHz freq) \<and>
         fst (panWindow (of_int lo) (of_int hi) spanHz freq)
           \<le> fst (snd (panWindow (of_int lo) (of_int hi) spanHz freq)) \<and>
         fst (snd (panWindow (of_int lo) (of_int hi) spanHz freq)) \<le> hi"
proof -
  have h: "0 \<le> spanHz div 2" using assms(1) by simp
  consider "freq - spanHz sdiv 2 \<le> lo" "freq + spanHz sdiv 2 < hi"
    | "lo < freq - spanHz sdiv 2" "hi \<le> freq + spanHz sdiv 2"
    | "freq - spanHz sdiv 2 \<le> lo" "hi \<le> freq + spanHz sdiv 2"
    | "lo < freq - spanHz sdiv 2" "freq + spanHz sdiv 2 < hi"
    by linarith
  then show ?thesis
  proof cases
    case 1
    then show ?thesis using assms by (simp add: panWindow_cases(1))
  next
    case 2
    then show ?thesis using assms by (simp add: panWindow_cases(2))
  next
    case 3
    then show ?thesis using assms by (simp add: panWindow_cases(3))
  next
    case 4
    then show ?thesis using assms h by (simp add: panWindow_cases(4) sdiv2_nonneg)
  qed
qed

text \<open>
  What the pan handler guarantees. A pan with integral range bounds \<open>[lo, hi]\<close> emits
  one window. When the bandwidth \<open>currBw\<close> is not negative and not wider than the
  range, the window lies inside the bounds. A requested window that reaches the lower
  bound only becomes \<open>[lo, lo + currBw]\<close>, one that reaches the upper bound only
  becomes \<open>[hi - currBw, hi]\<close>, and one that reaches both becomes the full range.
\<close>

theorem pan_window_slides_inside:
  assumes lo: "getMinFreq s = of_int lo" and hi: "getMaxFreq s = of_int hi"
  shows "\<exists>mn mx.
           emitted (onNewCenterFreq wfl freq s) =
             emitted s @ [DetailChanged mn mx (fixedFreqMode s)] \<and>
           (0 \<le> currBw s \<and> currBw s \<le> hi - lo \<longrightarrow> lo \<le> mn \<and> mn \<le> mx \<and> mx \<le> hi) \<and>
           (freq - currBw s sdiv 2 \<le> lo \<and> freq + currBw s sdiv 2 < hi \<longrightarrow>
              mn = lo \<and> mx = lo + currBw s) \<and>
           (lo < freq - currBw s sdiv 2 \<and> hi \<le> freq + currBw s sdiv 2 \<longrightarrow>
              mn = hi - currBw s \<and> mx = hi) \<and>
           (freq - currBw s sdiv 2 \<le> lo \<and> hi \<le> freq + currBw s sdiv 2 \<longrightarrow>
              mn = lo \<and> mx = hi)"
proof -
  let ?p = "panWindow (of_int lo) (of_int hi) (currBw s) freq"
  have e: "emitted (onNewCenterFreq wfl freq s) =
             emitted s @ [DetailChanged (fst ?p) (fst (snd ?p)) (fixedFreqMode s)]"
    using onNewCenterFreq_emitted [of wfl freq s] by (simp add: lo hi)
  have a: "0 \<le> currBw s \<and> currBw s \<le> hi - lo \<longrightarrow>
             lo \<le> fst ?p \<and> fst ?p \<le> fst (snd ?p) \<and> fst (snd ?p) \<le> hi"
    using panWindow_inside [of "currBw s" hi lo freq] by blast
  have b: "freq - currBw s sdiv 2 \<le> lo \<and> freq + currBw s sdiv 2 < hi \<longrightarrow>
              fst ?p = lo \<and> fst (snd ?p) = lo + currBw s"
    by (simp add: panWindow_cases(1))
  have c: "lo < freq - currBw s sdiv 2 \<and> hi \<le> freq + currBw s sdiv 2 \<longrightarrow>
              fst ?p = hi - currBw s \<and> fst (snd ?p) = hi"
    by (simp add: panWindow_cases(2))
  have d: "freq - currBw s sdiv 2 \<le> lo \<and> hi \<le> freq + currBw s sdiv 2 \<longrightarrow>
              fst ?p = lo \<and> fst (snd ?p) = hi"
    by (simp add: panWindow_cases(3))
  from e a b c d show ?thesis by blast
qed

text \<open>
  C1, as the code has it. A zoom change handled outside the re-entrancy guard emits
  exactly one \<^verbatim>\<open>detailChanged\<close>, whatever was emitted before; under the guard the handler
  does nothing. A centre-frequency change emits exactly one \<^verbatim>\<open>detailChanged\<close>. What
  depends on the last applied width \<open>currBw\<close> is \<^verbatim>\<open>setWfRange\<close>: with an unchanged
  width it only re-centres the waterfall (sweep) or does nothing (fixed frequency).
\<close>

theorem window_event_on_every_change:
  "(\<not> adjustingRange s \<longrightarrow>
      emitted (onNewZoomLevel wfl s) = emitted s @
        [if fixedFreqMode (onNewZoomLevel wfl s)
         then DetailChanged (zoomTunedCenter wfl s - getSpanFreq wfl (waterfall s) sdiv 2)
                (zoomTunedCenter wfl s + getSpanFreq wfl (waterfall s) sdiv 2) True
         else DetailChanged (fst (zoomRequest wfl s)) (fst (snd (zoomRequest wfl s))) False]) \<and>
   (adjustingRange s \<longrightarrow> onNewZoomLevel wfl s = s) \<and>
   emitted (onNewCenterFreq wfl freq s) =
     emitted s @ [DetailChanged (fst (panWindow (getMinFreq s) (getMaxFreq s) (currBw s) freq))
                    (fst (snd (panWindow (getMinFreq s) (getMaxFreq s) (currBw s) freq)))
                    (fixedFreqMode s)] \<and>
   (\<not> fixedFreqMode s \<and> b - a = currBw s \<longrightarrow>
      setWfRange wfl a b s =
        s\<lparr>waterfall := setCenterFreq wfl (to_qint64 (0.5 * of_int (b + a))) (waterfall s)\<rparr>) \<and>
   (fixedFreqMode s \<and> int (minBwForZoom s) = currBw s \<longrightarrow> setWfRange wfl a b s = s)"
  using onNewZoomLevel_emitted [of s wfl] onNewZoomLevel_guarded [of s wfl]
    onNewCenterFreq_emitted [of wfl freq s]
    setWfRange_same_width(1) [where s = s and a = a and b = b and wfl = wfl]
    setWfRange_same_width(2) [where s = s and a = a and b = b and wfl = wfl]
  by blast


text \<open>
  C6, as the code has it. After a zoom change the mode is fixed-frequency iff the width
  \<open>W\<close> of the reconciled window, rounded to single precision, is at most the
  single-precision product of \<open>minBwForZoom\<close> and the slider position over 100. With
  the slider at 100 and both \<open>W\<close> and \<open>minBwForZoom\<close> at most \<open>2 ^ 24\<close> this
  is \<open>W \<le> minBwForZoom\<close>.
\<close>

theorem mode_switch_rule_single_precision:
  assumes "\<not> adjustingRange s"
  shows "fixedFreqMode (onNewZoomLevel wfl s) =
           (f32 (of_int (zoomWidth wfl s))
              \<le> f32 (f32 (of_nat (minBwForZoom s)) * f32 (f32 (of_int (relBwSlider s)) / 100))) \<and>
         (relBwSlider s = 100 \<and> \<bar>zoomWidth wfl s\<bar> \<le> 2 ^ 24 \<and> minBwForZoom s \<le> 2 ^ 24 \<longrightarrow>
            fixedFreqMode (onNewZoomLevel wfl s) = (zoomWidth wfl s \<le> int (minBwForZoom s)))"
proof -
  note m = onNewZoomLevel_mode [OF assms, of wfl]
  have a: "fixedFreqMode (onNewZoomLevel wfl s) =
           (f32 (of_int (zoomWidth wfl s))
              \<le> f32 (f32 (of_nat (minBwForZoom s)) * f32 (f32 (of_int (relBwSlider s)) / 100)))"
    unfolding m by (simp add: fixedFreqTest_def getRelBw_def)
  have b: "fixedFreqMode (onNewZoomLevel wfl s) = (zoomWidth wfl s \<le> int (minBwForZoom s))"
    if "relBwSlider s = 100" "\<bar>zoomWidth wfl s\<bar> \<le> 2 ^ 24" "minBwForZoom s \<le> 2 ^ 24"
    unfolding m using that getRelBw_full [of s] fixedFreqTest_exact by simp
  from a b show ?thesis by blast
qed

subsection \<open>The handlers on the example dialogs\<close>

lemmas dialog_eval = dialog0_def plainWaterfall_def spin_def getMinFreq_def getMaxFreq_def
  zoomRequest_def zoomWindow_def zoomWidth_def zoomTunedCenter_def to_qint64_def
  signed_divide_int_def Let_def

lemmas handler_eval = onNewZoomLevel_def setWfRange_def emit_def dialog_eval
  getRelBw_full fixedFreqTest_exact

lemma dlgSweep_step:
  "onNewZoomLevel plainWaterfall (dlgSweep\<lparr>emitted := es\<rparr>)
   = dlgSweep\<lparr>emitted := es @ [DetailChanged 900000 1100000 False]\<rparr>"
  by (simp add: dlgSweep_def handler_eval)

lemma dlgSweep_facts:
  "dlgSweep\<lparr>emitted := []\<rparr> = dlgSweep" "\<not> adjustingRange dlgSweep"
  "\<not> fixedFreqMode dlgSweep" "currBw dlgSweep = 200000" "emitted dlgSweep = []"
  by (simp_all add: dlgSweep_def dialog0_def)

text \<open>
  The claim as the specification states it fails: the same zoom request handled twice
  in a row emits the same window twice.
\<close>

theorem same_window_twice_counterexample:
  "emitted (onNewZoomLevel plainWaterfall (onNewZoomLevel plainWaterfall dlgSweep)) =
   [DetailChanged 900000 1100000 False, DetailChanged 900000 1100000 False]"
  using dlgSweep_step [of "[]"] dlgSweep_step [of "[DetailChanged 900000 1100000 False]"]
    dlgSweep_facts(1)
  by simp

theorem window_event_on_every_change_witness:
  "\<not> adjustingRange dlgSweep \<and>
   emitted (onNewZoomLevel plainWaterfall dlgSweep) = [DetailChanged 900000 1100000 False] \<and>
   adjustingRange (dlgSweep\<lparr>adjustingRange := True\<rparr>) \<and>
   onNewZoomLevel plainWaterfall (dlgSweep\<lparr>adjustingRange := True\<rparr>)
     = dlgSweep\<lparr>adjustingRange := True\<rparr> \<and>
   \<not> fixedFreqMode dlgSweep \<and> 1100000 - 900000 = currBw dlgSweep \<and>
   setWfRange plainWaterfall 900000 1100000 dlgSweep
     = dlgSweep\<lparr>waterfall := setCenterFreq plainWaterfall 1000000 (waterfall dlgSweep)\<rparr>"
proof -
  have z: "onNewZoomLevel plainWaterfall dlgSweep
             = dlgSweep\<lparr>emitted := [DetailChanged 900000 1100000 False]\<rparr>"
    using dlgSweep_step [of "[]"] dlgSweep_facts(1) by simp
  have c: "to_qint64 (0.5 * of_int (1100000 + 900000)) = 1000000"
    by (simp add: to_qint64_def)
  from window_event_on_every_change [of dlgSweep plainWaterfall 1000000 1100000 900000]
    window_event_on_every_change
      [of "dlgSweep\<lparr>adjustingRange := True\<rparr>" plainWaterfall 1000000 1100000 900000]
    z c dlgSweep_facts
  show ?thesis by simp
qed





lemma dlg_widths:
  "zoomWidth plainWaterfall dlgEqual = 1000000"
  "zoomWidth plainWaterfall dlgAbove = 1000001"
  "zoomWidth plainWaterfall dlgWide = 20000001"
  "zoomWidth plainWaterfall dlgSlider13 = 247000"
  by (simp_all add: dlgEqual_def dlgAbove_def dlgWide_def dlgSlider13_def dialog_eval)

lemma dlg_settings:
  "\<not> adjustingRange dlgEqual" "relBwSlider dlgEqual = 100" "minBwForZoom dlgEqual = 1000000"
  "\<not> adjustingRange dlgAbove" "relBwSlider dlgAbove = 100" "minBwForZoom dlgAbove = 1000000"
  "\<not> adjustingRange dlgWide" "relBwSlider dlgWide = 100" "minBwForZoom dlgWide = 20000000"
  "\<not> adjustingRange dlgSlider13" "relBwSlider dlgSlider13 = 13"
  "minBwForZoom dlgSlider13 = 1900000"
  by (simp_all add: dlgEqual_def dlgAbove_def dlgWide_def dlgSlider13_def dialog0_def)

text \<open>
  The claim as the specification states it fails at both ends. With a minimum bandwidth
  of 20 MHz and the slider at 100, a width of 20000001 Hz, one Hz above the threshold,
  gives fixed-frequency mode: 20000001 is not a single-precision number and rounds to
  20000000. With a minimum bandwidth of 1.9 MHz and the slider at 13, a width of
  247000 Hz, equal to 13 hundredths of 1.9 MHz, gives sweep mode: 13 hundredths rounds
  down in single precision, and so does the product.
\<close>

theorem mode_boundary_counterexample:
  "zoomWidth plainWaterfall dlgWide = 20000001 \<and>
   minBwForZoom dlgWide = 20000000 \<and> relBwSlider dlgWide = 100 \<and>
   fixedFreqMode (onNewZoomLevel plainWaterfall dlgWide) \<and>
   zoomWidth plainWaterfall dlgSlider13 = 247000 \<and>
   minBwForZoom dlgSlider13 = 1900000 \<and> relBwSlider dlgSlider13 = 13 \<and>
   \<not> fixedFreqMode (onNewZoomLevel plainWaterfall dlgSlider13)"
proof -
  have r: "getRelBw dlgWide = 1"
    by (rule getRelBw_full) (simp add: dlg_settings)
  have a: "fixedFreqTest 20000001 20000000 1"
    by (simp add: fixedFreqTest_def f32_values)
  have r13: "getRelBw dlgSlider13 = 1090519 / 8388608"
    by (simp add: getRelBw_def dlg_settings f32_small f32_values)
  have b: "\<not> fixedFreqTest 247000 1900000 (1090519 / 8388608)"
    by (simp add: fixedFreqTest_def f32_small f32_values)
  have fa: "fixedFreqMode (onNewZoomLevel plainWaterfall dlgWide)"
    unfolding onNewZoomLevel_mode [OF dlg_settings(7)] dlg_widths dlg_settings r by (rule a)
  have fb: "\<not> fixedFreqMode (onNewZoomLevel plainWaterfall dlgSlider13)"
    unfolding onNewZoomLevel_mode [OF dlg_settings(10)] dlg_widths dlg_settings r13 by (rule b)
  from fa fb show ?thesis
    by (simp add: dlg_settings dlg_widths)
qed

theorem mode_switch_rule_single_precision_witness:
  "\<not> adjustingRange dlgEqual \<and> relBwSlider dlgEqual = 100 \<and>
   zoomWidth plainWaterfall dlgEqual = 1000000 \<and> minBwForZoom dlgEqual = 1000000 \<and>
   fixedFreqMode (onNewZoomLevel plainWaterfall dlgEqual) \<and>
   \<not> adjustingRange dlgAbove \<and> relBwSlider dlgAbove = 100 \<and>
   zoomWidth plainWaterfall dlgAbove = 1000001 \<and> minBwForZoom dlgAbove = 1000000 \<and>
   \<not> fixedFreqMode (onNewZoomLevel plainWaterfall dlgAbove)"
  using mode_switch_rule_single_precision [of dlgEqual plainWaterfall, THEN conjunct2]
    mode_switch_rule_single_precision [of dlgAbove plainWaterfall, THEN conjunct2]
  by (simp add: dlg_settings dlg_widths)

lemma dlgPanEdge_facts:
  "getMinFreq dlgPanEdge = of_int 0" "getMaxFreq dlgPanEdge = of_int 1000000"
  "currBw dlgPanEdge = 200000" "emitted dlgPanEdge = []" "\<not> fixedFreqMode dlgPanEdge"
  by (simp_all add: dlgPanEdge_def dialog0_def getMinFreq_def getMaxFreq_def spin_def)

lemma dlgPanWide_step:
  "onNewZoomLevel plainWaterfall dlgPanWide
   = dlgPanWide\<lparr>waterfall := (waterfall dlgPanWide)\<lparr>wf_sampleRate := 1200000\<rparr>,
        fixedFreqMode := True, currBw := 1200000,
        emitted := [DetailChanged 0 1000000 True]\<rparr>"
  by (simp add: dlgPanWide_def handler_eval)

lemma dlgPanWide_facts:
  "getMinFreq dlgPanWide = 0" "getMaxFreq dlgPanWide = 1000000"
  "minBwForZoom dlgPanWide = 1200000" "relBwSlider dlgPanWide = 100"
  by (simp_all add: dlgPanWide_def dialog0_def getMinFreq_def getMaxFreq_def spin_def)

text \<open>
  C7. A pan whose window would cross a range bound is to slide back inside the bounds,
  and a window wider than the whole range is to become the full range. The handler
  misses one case. With the range \<open>[0, 1000000]\<close> and a minimum bandwidth of 1.2 MHz,
  a zoom change enters fixed-frequency mode and makes 1.2 MHz the applied bandwidth,
  wider than the range. A pan to 300 kHz then reaches the lower bound only, and the
  handler emits \<open>[0, 1200000]\<close>, which is neither the full range nor inside it. The
  zoom handler cuts the window at both ends after shifting it (lines 1018 to 1026); the
  pan handler does not.
\<close>

theorem pan_wide_window_counterexample:
  "getMinFreq dlgPanWide = 0 \<and> getMaxFreq dlgPanWide = 1000000 \<and>
   currBw (onNewZoomLevel plainWaterfall dlgPanWide) = 1200000 \<and>
   emitted (onNewCenterFreq plainWaterfall 300000 (onNewZoomLevel plainWaterfall dlgPanWide))
     = [DetailChanged 0 1000000 True, DetailChanged 0 1200000 True]"
  by (simp add: onNewCenterFreq_emitted dlgPanWide_step dlgPanWide_facts getMinFreq_def
      getMaxFreq_def panWindow_def to_qint64_def signed_divide_int_def Let_def)
    (simp add: dlgPanWide_def dialog0_def spin_def)

theorem pan_window_slides_inside_witness:
  "getMinFreq dlgPanEdge = of_int 0 \<and> getMaxFreq dlgPanEdge = of_int 1000000 \<and>
   currBw dlgPanEdge = 200000 \<and>
   emitted (onNewCenterFreq plainWaterfall 1050000 dlgPanEdge)
     = [DetailChanged 800000 1000000 False]"
proof -
  from pan_window_slides_inside [OF dlgPanEdge_facts(1,2), of plainWaterfall 1050000]
  obtain mn mx where
    e: "emitted (onNewCenterFreq plainWaterfall 1050000 dlgPanEdge) =
          emitted dlgPanEdge @ [DetailChanged mn mx (fixedFreqMode dlgPanEdge)]"
    and r: "0 < 1050000 - currBw dlgPanEdge sdiv 2 \<and>
            1000000 \<le> 1050000 + currBw dlgPanEdge sdiv 2 \<longrightarrow>
              mn = 1000000 - currBw dlgPanEdge \<and> mx = 1000000"
    by blast
  from r have "mn = 800000 \<and> mx = 1000000"
    by (simp add: dlgPanEdge_facts signed_divide_int_def)
  with e show ?thesis by (simp add: dlgPanEdge_facts)
qed

end
